theory Spec2Isabelle
  imports Complex_Main
begin

section \<open>The pricing recommendation engine of app.py\<close>

text \<open>
  The engine is the straight-line computation of app.py between the selection of the
  row (line 39) and the rationale (line 169). Every variable the script assigns becomes
  a function of the row, under the script's name.

  Numbers. A number of the script is a float: NaN, one of the two infinities, or a
  finite number. Finite numbers are exact rationals here, so rounding and overflow are
  not represented, and neither are the sign of zero (a zero divisor counts as +0) and
  the wrap-around of NumPy's 64-bit integers.

  Where a number comes from. The script mixes two kinds of number. A cell of the row is
  a NumPy scalar; a default of \<open>row.get\<close> and a literal are Python's own numbers. The
  result of an operation is a NumPy scalar as soon as one operand is. The kinds differ
  in one place only, division by zero: Python raises \<open>ZeroDivisionError\<close> when both
  operands are its own numbers, and NumPy gives inf or nan (with a warning) and the
  script goes on.
\<close>

subsection \<open>Floats\<close>

datatype flt = NaN | NInf | Fin rat | PInf

fun flt_neg :: "flt \<Rightarrow> flt" where
  "flt_neg NaN = NaN"
| "flt_neg NInf = PInf"
| "flt_neg (Fin a) = Fin (- a)"
| "flt_neg PInf = NInf"

fun flt_add :: "flt \<Rightarrow> flt \<Rightarrow> flt" where
  "flt_add NaN _ = NaN"
| "flt_add _ NaN = NaN"
| "flt_add PInf NInf = NaN"
| "flt_add NInf PInf = NaN"
| "flt_add PInf _ = PInf"
| "flt_add _ PInf = PInf"
| "flt_add NInf _ = NInf"
| "flt_add _ NInf = NInf"
| "flt_add (Fin a) (Fin b) = Fin (a + b)"

definition flt_sub :: "flt \<Rightarrow> flt \<Rightarrow> flt" where
  "flt_sub x y = flt_add x (flt_neg y)"

text \<open>The sign of a float that is not NaN, and the infinity of a sign; the sign 0
  gives NaN, as in \<open>inf * 0\<close> and \<open>0 / 0\<close>.\<close>

fun flt_sgn :: "flt \<Rightarrow> int" where
  "flt_sgn NaN = 0"
| "flt_sgn NInf = - 1"
| "flt_sgn (Fin a) = (if 0 < a then 1 else if a < 0 then - 1 else 0)"
| "flt_sgn PInf = 1"

definition inf_of_sgn :: "int \<Rightarrow> flt" where
  "inf_of_sgn s = (if 0 < s then PInf else if s < 0 then NInf else NaN)"

fun flt_mul :: "flt \<Rightarrow> flt \<Rightarrow> flt" where
  "flt_mul NaN _ = NaN"
| "flt_mul _ NaN = NaN"
| "flt_mul (Fin a) (Fin b) = Fin (a * b)"
| "flt_mul x y = inf_of_sgn (flt_sgn x * flt_sgn y)"

text \<open>NumPy's quotient: a finite number over zero is an infinity of its sign, and
  \<open>0 / 0\<close> and \<open>inf / inf\<close> are NaN.\<close>

fun flt_div :: "flt \<Rightarrow> flt \<Rightarrow> flt" where
  "flt_div NaN _ = NaN"
| "flt_div _ NaN = NaN"
| "flt_div (Fin a) (Fin b) = (if b = 0 then inf_of_sgn (flt_sgn (Fin a)) else Fin (a / b))"
| "flt_div (Fin a) _ = Fin 0"
| "flt_div x (Fin b) = inf_of_sgn (flt_sgn x * (if b < 0 then - 1 else 1))"
| "flt_div _ _ = NaN"

text \<open>Comparisons are false as soon as one side is NaN.\<close>

fun flt_less :: "flt \<Rightarrow> flt \<Rightarrow> bool" where
  "flt_less NaN _ = False"
| "flt_less _ NaN = False"
| "flt_less (Fin a) (Fin b) = (a < b)"
| "flt_less NInf NInf = False"
| "flt_less NInf _ = True"
| "flt_less _ NInf = False"
| "flt_less PInf _ = False"
| "flt_less _ PInf = True"

definition flt_le :: "flt \<Rightarrow> flt \<Rightarrow> bool" where
  "flt_le x y = (x \<noteq> NaN \<and> y \<noteq> NaN \<and> \<not> flt_less y x)"

fun is_fin :: "flt \<Rightarrow> bool" where
  "is_fin (Fin _) = True"
| "is_fin _ = False"

text \<open>The value of \<open>max(a, b)\<close>: the first argument unless the second is greater.\<close>

definition flt_max :: "flt \<Rightarrow> flt \<Rightarrow> flt" where
  "flt_max a b = (if flt_less a b then b else a)"

subsection \<open>Python values, rows, errors\<close>

text \<open>\<open>Py\<close> is one of Python's own numbers, \<open>Np\<close> a NumPy scalar.\<close>

datatype pyval = Py flt | Np flt

fun val :: "pyval \<Rightarrow> flt" where
  "val (Py x) = x"
| "val (Np x) = x"

fun is_np :: "pyval \<Rightarrow> bool" where
  "is_np (Py _) = False"
| "is_np (Np _) = True"

text \<open>A literal of the script.\<close>

definition lit :: "rat \<Rightarrow> pyval" where
  "lit q = Py (Fin q)"

definition arith :: "(flt \<Rightarrow> flt \<Rightarrow> flt) \<Rightarrow> pyval \<Rightarrow> pyval \<Rightarrow> pyval" where
  "arith f x y =
     (if is_np x \<or> is_np y then Np (f (val x) (val y)) else Py (f (val x) (val y)))"

definition py_add :: "pyval \<Rightarrow> pyval \<Rightarrow> pyval" where
  "py_add = arith flt_add"

definition py_sub :: "pyval \<Rightarrow> pyval \<Rightarrow> pyval" where
  "py_sub = arith flt_sub"

definition py_mul :: "pyval \<Rightarrow> pyval \<Rightarrow> pyval" where
  "py_mul = arith flt_mul"

text \<open>The quotient when nothing is raised.\<close>

definition quot :: "pyval \<Rightarrow> pyval \<Rightarrow> pyval" where
  "quot = arith flt_div"

datatype error = ZeroDivisionError

text \<open>\<open>x / y\<close>: Python raises when the divisor is zero and both operands are its own
  numbers; with a NumPy scalar on either side the quotient is NumPy's.\<close>

definition py_truediv :: "pyval \<Rightarrow> pyval \<Rightarrow> error + pyval" where
  "py_truediv x y =
     (if \<not> is_np x \<and> \<not> is_np y \<and> val y = Fin 0 then Inl ZeroDivisionError
      else Inr (quot x y))"

definition py_gt :: "pyval \<Rightarrow> pyval \<Rightarrow> bool" where
  "py_gt x y = flt_less (val y) (val x)"

definition py_lt :: "pyval \<Rightarrow> pyval \<Rightarrow> bool" where
  "py_lt x y = flt_less (val x) (val y)"

text \<open>\<open>max(a, b)\<close> keeps its first argument unless the second is greater.\<close>

definition py_max :: "pyval \<Rightarrow> pyval \<Rightarrow> pyval" where
  "py_max a b = (if py_gt b a then b else a)"

text \<open>The truth value of a number: false for zero only (NaN is true).\<close>

definition py_bool :: "pyval \<Rightarrow> bool" where
  "py_bool x = (val x \<noteq> Fin 0)"

definition isna :: "pyval \<Rightarrow> bool" where
  "isna x = (val x = NaN)"

text \<open>
  A row is a pandas Series: a dictionary from column names to cells. A column that is
  missing from the row has no entry; an empty cell of a column that is there holds NaN.
  \<open>row.get(key, default)\<close> gives the cell when the column is there, NaN included, and
  the default only when the column is missing.
\<close>

type_synonym row = "string \<rightharpoonup> flt"

definition row_get :: "row \<Rightarrow> string \<Rightarrow> pyval \<Rightarrow> pyval" where
  "row_get r k d = (case r k of None \<Rightarrow> d | Some c \<Rightarrow> Np c)"

text \<open>Sequencing: a raised error ends the script.\<close>

definition bind_err :: "error + 'a \<Rightarrow> ('a \<Rightarrow> error + 'b) \<Rightarrow> error + 'b" where
  "bind_err m f = (case m of Inl e \<Rightarrow> Inl e | Inr x \<Rightarrow> f x)"

subsection \<open>Cost model (lines 44 to 67)\<close>

definition total_cost :: "row \<Rightarrow> pyval" where
  "total_cost r =
     py_add (py_add (py_add
       (row_get r ''Cost'' (lit 0))
       (row_get r ''FBA_Fee'' (lit 0)))
       (row_get r ''Storage_Fee'' (lit 0)))
       (row_get r ''Handling_Cost'' (lit 0))"

text \<open>The divisor of lines 51 and 52 is the literal 100, which is not zero, so nothing
  can be raised there.\<close>

definition min_margin :: "row \<Rightarrow> pyval" where
  "min_margin r = quot (row_get r ''Minimum_Acceptable_Margin_%'' (lit 10)) (lit 100)"

definition target_margin :: "row \<Rightarrow> pyval" where
  "target_margin r = quot (row_get r ''Target_Gross_Margin_%'' (lit 25)) (lit 100)"

definition current_price :: "row \<Rightarrow> pyval" where
  "current_price r = row_get r ''Current_Price'' (lit 0)"

text \<open>Line 55: \<open>(current_price - total_cost) / current_price if current_price else 0\<close>.\<close>

definition current_margin :: "row \<Rightarrow> error + pyval" where
  "current_margin r =
     (if py_bool (current_price r)
      then py_truediv (py_sub (current_price r) (total_cost r)) (current_price r)
      else Inr (lit 0))"

text \<open>\<open>np.nan\<close>, the default of the three optional columns, is a Python float.\<close>

definition days_supply :: "row \<Rightarrow> pyval" where
  "days_supply r = row_get r ''days_of_supply'' (Py NaN)"

definition competitor_avg :: "row \<Rightarrow> pyval" where
  "competitor_avg r = row_get r ''Avg_Competitor_Price'' (Py NaN)"

definition units90 :: "row \<Rightarrow> pyval" where
  "units90 r = row_get r ''units_shipped_t90'' (lit 0)"

definition returns90 :: "row \<Rightarrow> pyval" where
  "returns90 r = row_get r ''returns_t90'' (lit 0)"

definition return_risk_load :: "row \<Rightarrow> error + pyval" where
  "return_risk_load r =
     bind_err (py_truediv (returns90 r) (py_add (units90 r) (lit 1)))
       (\<lambda>q. Inr (py_mul q (total_cost r)))"

definition ads_acos :: "row \<Rightarrow> pyval" where
  "ads_acos r = row_get r ''acosClicks14d'' (Py NaN)"

subsection \<open>Price targets (lines 72 and 73)\<close>

definition min_price_allowed :: "row \<Rightarrow> error + pyval" where
  "min_price_allowed r = py_truediv (total_cost r) (py_sub (lit 1) (min_margin r))"

definition target_price :: "row \<Rightarrow> error + pyval" where
  "target_price r = py_truediv (total_cost r) (py_sub (lit 1) (target_margin r))"

subsection \<open>Signals (lines 78 to 110)\<close>

text \<open>A signal is one of the literals 0, +0.05 and -0.05, a Python number in every
  branch, so it is a rational.\<close>

definition inventory_signal :: "row \<Rightarrow> rat" where
  "inventory_signal r =
     (if isna (days_supply r) then 0
      else if py_lt (days_supply r) (lit 20) then 5 / 100
      else if py_gt (days_supply r) (lit 90) then - (5 / 100)
      else 0)"

definition competitor_target :: "row \<Rightarrow> pyval" where
  "competitor_target r =
     (if \<not> isna (competitor_avg r)
      then py_add (py_mul (lit (7 / 10)) (competitor_avg r))
                  (py_mul (lit (3 / 10)) (current_price r))
      else current_price r)"

definition ads_signal :: "row \<Rightarrow> rat" where
  "ads_signal r =
     (if isna (ads_acos r) then 0
      else if py_gt (ads_acos r) (lit 40) then 5 / 100
      else if py_lt (ads_acos r) (lit 20) then - (5 / 100)
      else 0)"

definition risk_signal :: "row \<Rightarrow> error + rat" where
  "risk_signal r =
     bind_err (return_risk_load r)
       (\<lambda>l. Inr (if py_gt l (py_mul (lit (2 / 10)) (total_cost r)) then 5 / 100 else 0))"

subsection \<open>Base price, signals applied, blend and floor (lines 115 to 128)\<close>

definition base :: "row \<Rightarrow> error + pyval" where
  "base r =
     bind_err (min_price_allowed r) (\<lambda>m.
     bind_err (target_price r) (\<lambda>t. Inr (py_max t m)))"

text \<open>The variable \<open>recommended_price\<close> is assigned six times; \<open>p0\<close> to \<open>p4\<close> are its
  successive values and the result is the last one.\<close>

definition recommended_price :: "row \<Rightarrow> error + pyval" where
  "recommended_price r =
     bind_err (risk_signal r) (\<lambda>rs.
     bind_err (min_price_allowed r) (\<lambda>m.
     bind_err (base r) (\<lambda>b.
       let p0 = b;
           p1 = py_mul p0 (lit (1 + inventory_signal r));
           p2 = py_mul p1 (lit (1 + ads_signal r));
           p3 = py_mul p2 (lit (1 + rs));
           p4 = py_add (py_mul (lit (6 / 10)) p3) (py_mul (lit (4 / 10)) (competitor_target r))
       in Inr (py_max p4 m))))"

definition recommended_margin :: "row \<Rightarrow> error + pyval" where
  "recommended_margin r =
     bind_err (recommended_price r) (\<lambda>p. py_truediv (py_sub p (total_cost r)) p)"

subsection \<open>Risk label (lines 133 to 137)\<close>

text \<open>The label is a Python string, first \<open>LOW\<close>, then overwritten by the first branch
  of the \<open>if\<close>/\<open>elif\<close> that holds.\<close>

definition risk_level :: "row \<Rightarrow> error + string" where
  "risk_level r =
     bind_err (return_risk_load r) (\<lambda>l.
       Inr (if py_gt l (py_mul (lit (2 / 10)) (total_cost r))
               \<or> (\<not> isna (ads_acos r) \<and> py_gt (ads_acos r) (lit 40))
            then ''HIGH''
            else if \<not> isna (days_supply r) \<and> py_lt (days_supply r) (lit 20)
            then ''MEDIUM''
            else ''LOW''))"

subsection \<open>Rationale (lines 162 to 169)\<close>

text \<open>The arrow of the messages is U+2192; a \<open>string\<close> holds bytes, so it is written as
  its three bytes in UTF-8.\<close>

definition arrow :: string where
  "arrow = [CHR 0xE2, CHR 0x86, CHR 0x92]"

definition msg_low_inventory :: string where
  "msg_low_inventory = ''Low inventory '' @ arrow @ '' price increased slightly''"

definition msg_high_inventory :: string where
  "msg_high_inventory = ''High inventory '' @ arrow @ '' price reduced slightly''"

definition msg_high_acos :: string where
  "msg_high_acos = ''High ACOS '' @ arrow @ '' price increased to protect margin''"

definition msg_efficient_ads :: string where
  "msg_efficient_ads = ''Efficient ads '' @ arrow @ '' price optimized for volume''"

definition msg_high_returns :: string where
  "msg_high_returns = ''High returns '' @ arrow @ '' risk-adjusted pricing''"

definition msg_competitor :: string where
  "msg_competitor = ''Price aligned with competitor market''"

definition msg_fallback :: string where
  "msg_fallback = ''Price optimized to reach target margin safely''"

text \<open>\<open>reason.append(s)\<close> on the list built so far; \<open>a1\<close> to \<open>a5\<close> are the list after
  each of the five statements of lines 163 to 169.\<close>

definition reason :: "row \<Rightarrow> error + string list" where
  "reason r =
     bind_err (risk_signal r) (\<lambda>rs.
       let a0 = [];
           a1 = (if inventory_signal r > 0 then a0 @ [msg_low_inventory]
                 else if inventory_signal r < 0 then a0 @ [msg_high_inventory]
                 else a0);
           a2 = (if ads_signal r > 0 then a1 @ [msg_high_acos]
                 else if ads_signal r < 0 then a1 @ [msg_efficient_ads]
                 else a1);
           a3 = (if rs > 0 then a2 @ [msg_high_returns] else a2);
           a4 = (if \<not> isna (competitor_avg r) then a3 @ [msg_competitor] else a3);
           a5 = (if length a4 = 0 then a4 @ [msg_fallback] else a4)
       in Inr a5)"

subsection \<open>The whole run\<close>

record result =
  res_total_cost :: pyval
  res_min_price_allowed :: pyval
  res_target_price :: pyval
  res_recommended_price :: pyval
  res_current_margin :: pyval
  res_recommended_margin :: pyval
  res_risk_level :: string
  res_rationale :: "string list"

text \<open>The steps in the order of the script; a raised error ends the run.\<close>

definition engine :: "row \<Rightarrow> error + result" where
  "engine r =
     bind_err (current_margin r) (\<lambda>cm.
     bind_err (return_risk_load r) (\<lambda>_.
     bind_err (min_price_allowed r) (\<lambda>m.
     bind_err (target_price r) (\<lambda>t.
     bind_err (recommended_price r) (\<lambda>p.
     bind_err (recommended_margin r) (\<lambda>rm.
     bind_err (risk_level r) (\<lambda>lvl.
     bind_err (reason r) (\<lambda>why.
       Inr \<lparr> res_total_cost = total_cost r,
             res_min_price_allowed = m,
             res_target_price = t,
             res_recommended_price = p,
             res_current_margin = cm,
             res_recommended_margin = rm,
             res_risk_level = lvl,
             res_rationale = why \<rparr>))))))))"

subsection \<open>The rationale as the specification words it\<close>

text \<open>Step 11 of the specification: a fixed, ordered list of conditions, each with its
  message; the messages whose condition holds are kept, in that order, and the fallback
  message stands alone when none is kept. Items 2 and 4 are worded "else", so they carry
  the negation of the item before them.\<close>

definition fired :: "(bool \<times> string) list \<Rightarrow> string list" where
  "fired cs = map snd (filter fst cs)"

definition rationale_spec :: "rat \<Rightarrow> rat \<Rightarrow> rat \<Rightarrow> bool \<Rightarrow> string list" where
  "rationale_spec isig asig rsig present =
     (let xs = fired
        [(isig > 0, msg_low_inventory),
         (\<not> isig > 0 \<and> isig < 0, msg_high_inventory),
         (asig > 0, msg_high_acos),
         (\<not> asig > 0 \<and> asig < 0, msg_efficient_ads),
         (rsig > 0, msg_high_returns),
         (present, msg_competitor)]
      in if xs = [] then [msg_fallback] else xs)"

subsection \<open>Concrete rows\<close>

text \<open>The scenario of section 8, item 6 of the specification. The two margin columns are
  missing, so the defaults 10 and 25 apply.\<close>

definition scenario :: row where
  "scenario = [''Cost'' \<mapsto> Fin 10, ''FBA_Fee'' \<mapsto> Fin 3, ''Storage_Fee'' \<mapsto> Fin 1,
     ''Handling_Cost'' \<mapsto> Fin 1, ''days_of_supply'' \<mapsto> Fin 15,
     ''acosClicks14d'' \<mapsto> Fin 50, ''units_shipped_t90'' \<mapsto> Fin 100,
     ''returns_t90'' \<mapsto> Fin 5, ''Avg_Competitor_Price'' \<mapsto> Fin 22,
     ''Current_Price'' \<mapsto> Fin 18]"

text \<open>An item that costs nothing and has no price yet.\<close>

definition unpriced_free_item :: row where
  "unpriced_free_item = [''Cost'' \<mapsto> Fin 0, ''FBA_Fee'' \<mapsto> Fin 0,
     ''Storage_Fee'' \<mapsto> Fin 0, ''Handling_Cost'' \<mapsto> Fin 0, ''Current_Price'' \<mapsto> Fin 0]"

text \<open>An item that costs nothing and is priced at 10.\<close>

definition priced_free_item :: row where
  "priced_free_item = [''Cost'' \<mapsto> Fin 0, ''Current_Price'' \<mapsto> Fin 10]"

text \<open>A cost of 10 and an empty cell in the column of the current price.\<close>

definition empty_price_cell :: row where
  "empty_price_cell = [''Cost'' \<mapsto> Fin 10, ''Current_Price'' \<mapsto> NaN]"

text \<open>An empty cell in the column of the cost.\<close>

definition empty_cost_cell :: row where
  "empty_cost_cell = [''Cost'' \<mapsto> NaN]"

definition target_margin_100 :: row where
  "target_margin_100 = [''Cost'' \<mapsto> Fin 10, ''Target_Gross_Margin_%'' \<mapsto> Fin 100]"

definition min_margin_100 :: row where
  "min_margin_100 = [''Cost'' \<mapsto> Fin 10, ''Minimum_Acceptable_Margin_%'' \<mapsto> Fin 100]"

text \<open>No cost, and a minimum margin of 100 percent, or an empty cell for it.\<close>

definition zero_cost_margin_100 :: row where
  "zero_cost_margin_100 = [''Cost'' \<mapsto> Fin 0, ''FBA_Fee'' \<mapsto> Fin 0,
     ''Storage_Fee'' \<mapsto> Fin 0, ''Handling_Cost'' \<mapsto> Fin 0,
     ''Minimum_Acceptable_Margin_%'' \<mapsto> Fin 100]"

definition zero_cost_empty_margin :: row where
  "zero_cost_empty_margin = [''Cost'' \<mapsto> Fin 0, ''FBA_Fee'' \<mapsto> Fin 0,
     ''Storage_Fee'' \<mapsto> Fin 0, ''Handling_Cost'' \<mapsto> Fin 0,
     ''Minimum_Acceptable_Margin_%'' \<mapsto> NaN]"

definition many_returns :: row where
  "many_returns = [''Cost'' \<mapsto> Fin 10, ''units_shipped_t90'' \<mapsto> Fin 9,
     ''returns_t90'' \<mapsto> Fin 5]"

definition low_stock :: row where
  "low_stock = [''Cost'' \<mapsto> Fin 10, ''days_of_supply'' \<mapsto> Fin 15]"

definition cost_only :: row where
  "cost_only = [''Cost'' \<mapsto> Fin 10]"

subsection \<open>The values of the price steps\<close>

text \<open>The product of the three factors of lines 121 to 123; each factor is 0.95, 1 or
  1.05.\<close>

definition signal_factor :: "row \<Rightarrow> rat \<Rightarrow> rat" where
  "signal_factor r rs = (1 + inventory_signal r) * (1 + ads_signal r) * (1 + rs)"

text \<open>Line 125 on values: the blend of the price after the signals with the competitor
  target.\<close>

definition blend_val :: "flt \<Rightarrow> rat \<Rightarrow> flt \<Rightarrow> flt" where
  "blend_val b k c = flt_add (flt_mul (Fin (6 / 10)) (flt_mul b (Fin k))) (flt_mul (Fin (4 / 10)) c)"

definition floor_val :: "row \<Rightarrow> flt" where
  "floor_val r = flt_div (val (total_cost r)) (flt_sub (Fin 1) (val (min_margin r)))"

definition target_val :: "row \<Rightarrow> flt" where
  "target_val r = flt_div (val (total_cost r)) (flt_sub (Fin 1) (val (target_margin r)))"

section \<open>Properties\<close>

subsection \<open>Values and kinds of the operations\<close>

lemma val_arith [simp]: "val (arith f x y) = f (val x) (val y)"
  by (simp add: arith_def)

lemma is_np_arith [simp]: "is_np (arith f x y) = (is_np x \<or> is_np y)"
  by (simp add: arith_def)

lemma val_lit [simp]: "val (lit q) = Fin q"
  by (simp add: lit_def)

lemma is_np_lit [simp]: "\<not> is_np (lit q)"
  by (simp add: lit_def)

lemma bind_err_Inr [simp]: "bind_err (Inr x) f = f x"
  by (simp add: bind_err_def)

lemma bind_err_Inl [simp]: "bind_err (Inl e) f = Inl e"
  by (simp add: bind_err_def)

lemma py_truediv_Inr:
  "is_np x \<or> is_np y \<or> val y \<noteq> Fin 0 \<Longrightarrow> py_truediv x y = Inr (quot x y)"
  by (auto simp add: py_truediv_def)

lemma val_py_max: "val (py_max a b) = flt_max (val a) (val b)"
  by (simp add: py_max_def py_gt_def flt_max_def)

text \<open>Either the column is there and the value is a NumPy scalar, or it is the default.\<close>

lemma row_get_cases: "is_np (row_get r k d) \<or> row_get r k d = d"
  by (simp add: row_get_def split: option.splits)

subsection \<open>The steps before line 128 raise nothing\<close>

lemma current_margin_returns: "\<exists>c. current_margin r = Inr c"
  by (auto simp add: current_margin_def py_truediv_def py_bool_def)

lemma return_risk_load_Inr:
  "return_risk_load r =
     Inr (py_mul (quot (returns90 r) (py_add (units90 r) (lit 1))) (total_cost r))"
proof -
  have "is_np (units90 r) \<or> units90 r = lit 0"
    unfolding units90_def by (rule row_get_cases)
  then have "is_np (py_add (units90 r) (lit 1)) \<or> val (py_add (units90 r) (lit 1)) \<noteq> Fin 0"
    by (auto simp add: py_add_def)
  then show ?thesis
    by (simp add: return_risk_load_def py_truediv_Inr)
qed

lemma margin_divisor:
  assumes "is_np x \<or> x = lit q" and "q \<noteq> 100"
  shows "is_np (py_sub (lit 1) (quot x (lit 100)))
         \<or> val (py_sub (lit 1) (quot x (lit 100))) \<noteq> Fin 0"
  using assms by (auto simp add: py_sub_def quot_def flt_sub_def)

lemma min_price_allowed_Inr:
  "min_price_allowed r = Inr (quot (total_cost r) (py_sub (lit 1) (min_margin r)))"
proof -
  have "is_np (row_get r ''Minimum_Acceptable_Margin_%'' (lit 10))
        \<or> row_get r ''Minimum_Acceptable_Margin_%'' (lit 10) = lit 10"
    by (rule row_get_cases)
  then have "is_np (py_sub (lit 1) (min_margin r)) \<or> val (py_sub (lit 1) (min_margin r)) \<noteq> Fin 0"
    unfolding min_margin_def by (rule margin_divisor) simp
  then show ?thesis
    by (simp add: min_price_allowed_def py_truediv_Inr)
qed

lemma target_price_Inr:
  "target_price r = Inr (quot (total_cost r) (py_sub (lit 1) (target_margin r)))"
proof -
  have "is_np (row_get r ''Target_Gross_Margin_%'' (lit 25))
        \<or> row_get r ''Target_Gross_Margin_%'' (lit 25) = lit 25"
    by (rule row_get_cases)
  then have "is_np (py_sub (lit 1) (target_margin r))
             \<or> val (py_sub (lit 1) (target_margin r)) \<noteq> Fin 0"
    unfolding target_margin_def by (rule margin_divisor) simp
  then show ?thesis
    by (simp add: target_price_def py_truediv_Inr)
qed

lemma risk_signal_Inr:
  "risk_signal r =
     Inr (if py_gt (py_mul (quot (returns90 r) (py_add (units90 r) (lit 1))) (total_cost r))
                   (py_mul (lit (2 / 10)) (total_cost r))
          then 5 / 100 else 0)"
  by (simp add: risk_signal_def return_risk_load_Inr)

lemma risk_signal_cases: "risk_signal r = Inr (5 / 100) \<or> risk_signal r = Inr 0"
  by (simp add: risk_signal_Inr)

lemma base_Inr:
  "base r = Inr (py_max (quot (total_cost r) (py_sub (lit 1) (target_margin r)))
                        (quot (total_cost r) (py_sub (lit 1) (min_margin r))))"
  by (simp add: base_def min_price_allowed_Inr target_price_Inr)

subsection \<open>The value of the recommended price\<close>

lemma inventory_signal_cases:
  "inventory_signal r = 0 \<or> inventory_signal r = 5 / 100 \<or> inventory_signal r = - (5 / 100)"
  by (simp add: inventory_signal_def)

lemma ads_signal_cases:
  "ads_signal r = 0 \<or> ads_signal r = 5 / 100 \<or> ads_signal r = - (5 / 100)"
  by (simp add: ads_signal_def)

lemma signal_factor_pos:
  assumes "rs = 5 / 100 \<or> rs = 0"
  shows "0 < signal_factor r rs"
proof -
  have "0 < 1 + inventory_signal r"
    using inventory_signal_cases [of r] by auto
  moreover have "0 < 1 + ads_signal r"
    using ads_signal_cases [of r] by auto
  moreover have "0 < 1 + rs"
    using assms by auto
  ultimately show ?thesis
    by (simp add: signal_factor_def)
qed

lemma flt_mul_three:
  assumes "0 < s1" and "0 < s2" and "0 < s3"
  shows "flt_mul (flt_mul (flt_mul x (Fin s1)) (Fin s2)) (Fin s3) = flt_mul x (Fin (s1 * s2 * s3))"
  using assms by (cases x) (simp_all add: inf_of_sgn_def algebra_simps)

lemma val_min_price_allowed: "\<exists>m. min_price_allowed r = Inr m \<and> val m = floor_val r"
  by (simp add: min_price_allowed_Inr floor_val_def quot_def py_sub_def)

lemma val_target_price: "\<exists>t. target_price r = Inr t \<and> val t = target_val r"
  by (simp add: target_price_Inr target_val_def quot_def py_sub_def)

lemma val_recommended_price:
  "\<exists>p rs. recommended_price r = Inr p \<and> risk_signal r = Inr rs \<and> (rs = 5 / 100 \<or> rs = 0)
     \<and> val p = flt_max (blend_val (flt_max (target_val r) (floor_val r)) (signal_factor r rs)
                           (val (competitor_target r)))
                        (floor_val r)"
proof -
  obtain rs where rs: "risk_signal r = Inr rs" "rs = 5 / 100 \<or> rs = 0"
    using risk_signal_cases [of r] by blast
  have pos: "0 < 1 + inventory_signal r" "0 < 1 + ads_signal r" "0 < 1 + rs"
    using inventory_signal_cases [of r] ads_signal_cases [of r] rs(2) by auto
  show ?thesis
    using rs
    by (simp add: recommended_price_def min_price_allowed_Inr base_Inr Let_def val_py_max
        py_mul_def py_add_def py_sub_def quot_def flt_mul_three [OF pos] blend_val_def
        floor_val_def target_val_def signal_factor_def)
qed

text \<open>A run that returns has each field from the step of that name.\<close>

lemma engine_fields:
  assumes "engine r = Inr res"
  shows "res_total_cost res = total_cost r
    \<and> min_price_allowed r = Inr (res_min_price_allowed res)
    \<and> target_price r = Inr (res_target_price res)
    \<and> recommended_price r = Inr (res_recommended_price res)
    \<and> current_margin r = Inr (res_current_margin res)
    \<and> recommended_margin r = Inr (res_recommended_margin res)
    \<and> risk_level r = Inr (res_risk_level res)
    \<and> reason r = Inr (res_rationale res)"
  using assms
  by (auto simp add: engine_def bind_err_def split: sum.splits)

subsection \<open>The steps on the concrete rows\<close>

lemmas cell_defs = row_get_def lit_def arith_def py_add_def py_sub_def py_mul_def quot_def
  py_truediv_def py_gt_def py_lt_def py_max_def py_bool_def isna_def flt_sub_def inf_of_sgn_def

lemmas var_defs = total_cost_def min_margin_def target_margin_def current_price_def
  days_supply_def competitor_avg_def units90_def returns90_def ads_acos_def

lemma sc_cells:
  "total_cost scenario = Np (Fin 15)" "min_margin scenario = Py (Fin (1 / 10))"
  "target_margin scenario = Py (Fin (1 / 4))" "current_price scenario = Np (Fin 18)"
  "units90 scenario = Np (Fin 100)" "returns90 scenario = Np (Fin 5)"
  "days_supply scenario = Np (Fin 15)" "competitor_avg scenario = Np (Fin 22)"
  "ads_acos scenario = Np (Fin 50)"
  by (simp_all add: scenario_def var_defs cell_defs)

lemma sc_return_risk_load: "return_risk_load scenario = Inr (Np (Fin (75 / 101)))"
  by (simp add: return_risk_load_def sc_cells cell_defs)

lemma sc_risk_signal: "risk_signal scenario = Inr 0"
  by (simp add: risk_signal_def sc_return_risk_load sc_cells cell_defs)

lemma sc_min_price: "min_price_allowed scenario = Inr (Np (Fin (50 / 3)))"
  by (simp add: min_price_allowed_def sc_cells cell_defs)

lemma sc_target_price: "target_price scenario = Inr (Np (Fin 20))"
  by (simp add: target_price_def sc_cells cell_defs)

lemma sc_inventory_signal: "inventory_signal scenario = 5 / 100"
  by (simp add: inventory_signal_def sc_cells cell_defs)

lemma sc_ads_signal: "ads_signal scenario = 5 / 100"
  by (simp add: ads_signal_def sc_cells cell_defs)

lemma sc_competitor_target: "competitor_target scenario = Np (Fin (208 / 10))"
  by (simp add: competitor_target_def sc_cells cell_defs)

lemma sc_base: "base scenario = Inr (Np (Fin 20))"
  by (simp add: base_def sc_min_price sc_target_price cell_defs)

lemma sc_recommended_price: "recommended_price scenario = Inr (Np (Fin (2155 / 100)))"
  by (simp add: recommended_price_def sc_risk_signal sc_min_price sc_base sc_inventory_signal
      sc_ads_signal sc_competitor_target Let_def cell_defs)

lemma sc_recommended_margin: "recommended_margin scenario = Inr (Np (Fin (131 / 431)))"
  by (simp add: recommended_margin_def sc_recommended_price sc_cells cell_defs)

lemma sc_current_margin: "current_margin scenario = Inr (Np (Fin (1 / 6)))"
  by (simp add: current_margin_def sc_cells cell_defs)

lemma sc_risk_level: "risk_level scenario = Inr ''HIGH''"
  by (simp add: risk_level_def sc_return_risk_load sc_cells cell_defs)

lemma sc_reason: "reason scenario = Inr [msg_low_inventory, msg_high_acos, msg_competitor]"
  by (simp add: reason_def sc_risk_signal sc_inventory_signal sc_ads_signal sc_cells isna_def
      Let_def)

lemma sc_engine:
  "engine scenario = Inr \<lparr> res_total_cost = Np (Fin 15),
     res_min_price_allowed = Np (Fin (50 / 3)), res_target_price = Np (Fin 20),
     res_recommended_price = Np (Fin (2155 / 100)), res_current_margin = Np (Fin (1 / 6)),
     res_recommended_margin = Np (Fin (131 / 431)), res_risk_level = ''HIGH'',
     res_rationale = [msg_low_inventory, msg_high_acos, msg_competitor] \<rparr>"
  by (simp add: engine_def sc_current_margin sc_return_risk_load sc_min_price sc_target_price
      sc_recommended_price sc_recommended_margin sc_risk_level sc_reason sc_cells)

text \<open>A row of a few columns, step by step.\<close>

lemmas step_defs = return_risk_load_def risk_signal_def min_price_allowed_def target_price_def
  inventory_signal_def ads_signal_def competitor_target_def base_def recommended_price_def
  recommended_margin_def current_margin_def risk_level_def

lemma free_cells:
  "total_cost unpriced_free_item = Np (Fin 0)" "min_margin unpriced_free_item = Py (Fin (1 / 10))"
  "target_margin unpriced_free_item = Py (Fin (1 / 4))"
  "current_price unpriced_free_item = Np (Fin 0)"
  "units90 unpriced_free_item = Py (Fin 0)" "returns90 unpriced_free_item = Py (Fin 0)"
  "days_supply unpriced_free_item = Py NaN" "competitor_avg unpriced_free_item = Py NaN"
  "ads_acos unpriced_free_item = Py NaN"
  by (simp_all add: unpriced_free_item_def var_defs cell_defs)

lemma free_min_price: "min_price_allowed unpriced_free_item = Inr (Np (Fin 0))"
  by (simp add: min_price_allowed_def free_cells cell_defs)

lemma free_target_price: "target_price unpriced_free_item = Inr (Np (Fin 0))"
  by (simp add: target_price_def free_cells cell_defs)

lemma free_recommended_price: "recommended_price unpriced_free_item = Inr (Np (Fin 0))"
  by (simp add: step_defs free_cells cell_defs Let_def)

lemma free_recommended_margin: "recommended_margin unpriced_free_item = Inr (Np NaN)"
  by (simp add: recommended_margin_def free_recommended_price free_cells cell_defs)

lemma priced_cells:
  "total_cost priced_free_item = Np (Fin 0)" "min_margin priced_free_item = Py (Fin (1 / 10))"
  "target_margin priced_free_item = Py (Fin (1 / 4))"
  "current_price priced_free_item = Np (Fin 10)"
  "units90 priced_free_item = Py (Fin 0)" "returns90 priced_free_item = Py (Fin 0)"
  "days_supply priced_free_item = Py NaN" "competitor_avg priced_free_item = Py NaN"
  "ads_acos priced_free_item = Py NaN"
  by (simp_all add: priced_free_item_def var_defs cell_defs)

lemma priced_recommended_price: "recommended_price priced_free_item = Inr (Np (Fin 4))"
  by (simp add: step_defs priced_cells cell_defs Let_def)

lemma priced_recommended_margin: "recommended_margin priced_free_item = Inr (Np (Fin 1))"
  by (simp add: recommended_margin_def priced_recommended_price priced_cells cell_defs)

lemma empty_price_cells:
  "total_cost empty_price_cell = Np (Fin 10)" "min_margin empty_price_cell = Py (Fin (1 / 10))"
  "target_margin empty_price_cell = Py (Fin (1 / 4))"
  "current_price empty_price_cell = Np NaN"
  "units90 empty_price_cell = Py (Fin 0)" "returns90 empty_price_cell = Py (Fin 0)"
  "days_supply empty_price_cell = Py NaN" "competitor_avg empty_price_cell = Py NaN"
  "ads_acos empty_price_cell = Py NaN"
  by (simp_all add: empty_price_cell_def var_defs cell_defs)

lemma empty_price_min_price: "min_price_allowed empty_price_cell = Inr (Np (Fin (100 / 9)))"
  by (simp add: min_price_allowed_def empty_price_cells cell_defs)

lemma empty_price_recommended_price: "recommended_price empty_price_cell = Inr (Np NaN)"
  by (simp add: step_defs empty_price_cells cell_defs Let_def)

lemma low_stock_cells:
  "total_cost low_stock = Np (Fin 10)" "units90 low_stock = Py (Fin 0)"
  "returns90 low_stock = Py (Fin 0)" "days_supply low_stock = Np (Fin 15)"
  "ads_acos low_stock = Py NaN" "competitor_avg low_stock = Py NaN"
  by (simp_all add: low_stock_def var_defs cell_defs)

lemma cost_only_cells:
  "total_cost cost_only = Np (Fin 10)" "units90 cost_only = Py (Fin 0)"
  "returns90 cost_only = Py (Fin 0)" "days_supply cost_only = Py NaN"
  "ads_acos cost_only = Py NaN" "competitor_avg cost_only = Py NaN"
  by (simp_all add: cost_only_def var_defs cell_defs)

lemma many_returns_cells:
  "total_cost many_returns = Np (Fin 10)" "units90 many_returns = Np (Fin 9)"
  "returns90 many_returns = Np (Fin 5)" "days_supply many_returns = Py NaN"
  "ads_acos many_returns = Py NaN" "competitor_avg many_returns = Py NaN"
  by (simp_all add: many_returns_def var_defs cell_defs)

lemma target_margin_100_cells:
  "total_cost target_margin_100 = Np (Fin 10)" "min_margin target_margin_100 = Py (Fin (1 / 10))"
  "target_margin target_margin_100 = Np (Fin 1)" "current_price target_margin_100 = Py (Fin 0)"
  "units90 target_margin_100 = Py (Fin 0)" "returns90 target_margin_100 = Py (Fin 0)"
  "days_supply target_margin_100 = Py NaN" "competitor_avg target_margin_100 = Py NaN"
  "ads_acos target_margin_100 = Py NaN"
  by (simp_all add: target_margin_100_def var_defs cell_defs)

lemma target_margin_100_engine:
  "engine target_margin_100 = Inr \<lparr> res_total_cost = Np (Fin 10),
     res_min_price_allowed = Np (Fin (100 / 9)), res_target_price = Np PInf,
     res_recommended_price = Np PInf, res_current_margin = Py (Fin 0),
     res_recommended_margin = Np NaN, res_risk_level = ''LOW'',
     res_rationale = [msg_fallback] \<rparr>"
  by (simp add: engine_def step_defs reason_def target_margin_100_cells cell_defs Let_def)

lemma min_margin_100_cells:
  "total_cost min_margin_100 = Np (Fin 10)" "min_margin min_margin_100 = Np (Fin 1)"
  "target_margin min_margin_100 = Py (Fin (1 / 4))" "current_price min_margin_100 = Py (Fin 0)"
  "units90 min_margin_100 = Py (Fin 0)" "returns90 min_margin_100 = Py (Fin 0)"
  "days_supply min_margin_100 = Py NaN" "competitor_avg min_margin_100 = Py NaN"
  "ads_acos min_margin_100 = Py NaN"
  by (simp_all add: min_margin_100_def var_defs cell_defs)

lemma min_margin_100_engine:
  "engine min_margin_100 = Inr \<lparr> res_total_cost = Np (Fin 10),
     res_min_price_allowed = Np PInf, res_target_price = Np (Fin (40 / 3)),
     res_recommended_price = Np PInf, res_current_margin = Py (Fin 0),
     res_recommended_margin = Np NaN, res_risk_level = ''LOW'',
     res_rationale = [msg_fallback] \<rparr>"
  by (simp add: engine_def step_defs reason_def min_margin_100_cells cell_defs Let_def)

subsection \<open>The floor and the sign of the price, on values\<close>

lemma flt_max_floor:
  "flt_le m (flt_max x m) \<longleftrightarrow> flt_max x m \<noteq> NaN \<and> m \<noteq> NaN"
  by (cases x; cases m) (auto simp add: flt_le_def flt_max_def)

lemma flt_max_Fin: "flt_max (Fin x) (Fin y) = Fin (max x y)"
  by (simp add: flt_max_def max_def)

lemma blend_val_Fin:
  "blend_val (Fin x) k (Fin c) = Fin (6 / 10 * (x * k) + 4 / 10 * c)"
  by (simp add: blend_val_def)

lemma floor_val_Fin:
  assumes "val (total_cost r) = Fin t" and "val (min_margin r) = Fin a" and "a \<noteq> 1"
  shows "floor_val r = Fin (t / (1 - a))"
  using assms by (simp add: floor_val_def flt_sub_def)

lemma target_val_Fin:
  assumes "val (total_cost r) = Fin t" and "val (target_margin r) = Fin b" and "b \<noteq> 1"
  shows "target_val r = Fin (t / (1 - b))"
  using assms by (simp add: target_val_def flt_sub_def)

section \<open>The claims\<close>

text \<open>
  C1 as stated, the recommended price is at least the minimum allowed price for every
  input row, fails: with a cost of 10 and an empty cell for the current price the
  minimum allowed price is 100/9, the blend of line 125 is NaN, and line 126 keeps it,
  since \<open>max\<close> keeps its first argument unless the second is greater.
\<close>

theorem margin_floor_counterexample:
  "empty_price_cell ''Cost'' = Some (Fin 10)
   \<and> empty_price_cell ''Current_Price'' = Some NaN
   \<and> min_price_allowed empty_price_cell = Inr (Np (Fin (100 / 9)))
   \<and> recommended_price empty_price_cell = Inr (Np NaN)
   \<and> \<not> flt_le (Fin (100 / 9)) NaN"
  by (simp add: empty_price_min_price empty_price_recommended_price flt_le_def)
    (simp add: empty_price_cell_def)

text \<open>
  C1, amended. For every input row the engine has a recommended price and a minimum
  allowed price, the latter being \<open>total_cost / (1 - min_margin)\<close>, and the recommended
  price is at least the minimum allowed price exactly when neither of the two is NaN.
  That is so, in particular, for every row whose total cost, margins and competitor
  target are finite numbers with neither margin at 100 percent, whatever the competitor
  blend is.
\<close>

theorem recommended_price_ge_min_price_allowed:
  "\<exists>p m. recommended_price r = Inr p \<and> min_price_allowed r = Inr m
     \<and> val m = flt_div (val (total_cost r)) (flt_sub (Fin 1) (val (min_margin r)))
     \<and> (flt_le (val m) (val p) \<longleftrightarrow> val p \<noteq> NaN \<and> val m \<noteq> NaN)
     \<and> (is_fin (val (total_cost r))
          \<and> is_fin (val (min_margin r)) \<and> val (min_margin r) \<noteq> Fin 1
          \<and> is_fin (val (target_margin r)) \<and> val (target_margin r) \<noteq> Fin 1
          \<and> is_fin (val (competitor_target r))
         \<longrightarrow> is_fin (val p) \<and> is_fin (val m) \<and> flt_le (val m) (val p))"
proof -
  obtain p rs where p: "recommended_price r = Inr p"
    and vp: "val p = flt_max (blend_val (flt_max (target_val r) (floor_val r))
                               (signal_factor r rs) (val (competitor_target r)))
                             (floor_val r)"
    using val_recommended_price [of r] by blast
  obtain m where m: "min_price_allowed r = Inr m" and vm: "val m = floor_val r"
    using val_min_price_allowed [of r] by blast
  have iff: "flt_le (val m) (val p) \<longleftrightarrow> val p \<noteq> NaN \<and> val m \<noteq> NaN"
    unfolding vp vm by (rule flt_max_floor)
  have fin: "is_fin (val p) \<and> is_fin (val m) \<and> flt_le (val m) (val p)"
    if h: "is_fin (val (total_cost r))"
      "is_fin (val (min_margin r))" "val (min_margin r) \<noteq> Fin 1"
      "is_fin (val (target_margin r))" "val (target_margin r) \<noteq> Fin 1"
      "is_fin (val (competitor_target r))"
  proof -
    from h obtain t a b c where v: "val (total_cost r) = Fin t" "val (min_margin r) = Fin a"
      "val (target_margin r) = Fin b" "val (competitor_target r) = Fin c"
      by (metis is_fin.elims(2))
    with h have ne: "a \<noteq> 1" "b \<noteq> 1"
      by auto
    have "is_fin (val p)" "is_fin (val m)"
      unfolding vp vm
      by (simp_all add: floor_val_Fin [OF v(1) v(2) ne(1)] target_val_Fin [OF v(1) v(3) ne(2)]
          v(4) flt_max_Fin blend_val_Fin)
    then show ?thesis
      using iff by (cases "val p"; cases "val m") auto
  qed
  show ?thesis
    using p m vm iff fin by (auto simp add: floor_val_def)
qed

theorem recommended_price_ge_min_price_allowed_witness:
  "is_fin (val (total_cost scenario))
   \<and> is_fin (val (min_margin scenario)) \<and> val (min_margin scenario) \<noteq> Fin 1
   \<and> is_fin (val (target_margin scenario)) \<and> val (target_margin scenario) \<noteq> Fin 1
   \<and> is_fin (val (competitor_target scenario))
   \<and> recommended_price scenario = Inr (Np (Fin (2155 / 100)))
   \<and> min_price_allowed scenario = Inr (Np (Fin (50 / 3)))
   \<and> flt_le (Fin (50 / 3)) (Fin (2155 / 100))"
  using recommended_price_ge_min_price_allowed [of scenario]
  by (simp add: sc_cells sc_competitor_target sc_recommended_price sc_min_price flt_le_def
      flt_sub_def)

text \<open>
  C2 as stated, a target margin of 100 percent is rejected with a ConfigurationError and
  no infinite price is ever returned, fails: on the row with cost 10 and target margin
  100 nothing is raised, the target price is \<open>10 / 0 = inf\<close>, and the run returns a
  result whose recommended price is infinite.
\<close>

theorem margin_100_counterexample:
  "target_margin_100 ''Target_Gross_Margin_%'' = Some (Fin 100)
   \<and> engine target_margin_100 = Inr \<lparr> res_total_cost = Np (Fin 10),
       res_min_price_allowed = Np (Fin (100 / 9)), res_target_price = Np PInf,
       res_recommended_price = Np PInf, res_current_margin = Py (Fin 0),
       res_recommended_margin = Np NaN, res_risk_level = ''LOW'',
       res_rationale = [msg_fallback] \<rparr>"
  by (simp add: target_margin_100_engine) (simp add: target_margin_100_def)

text \<open>
  C2, amended. The script validates nothing and has no ConfigurationError. For every
  input row whose minimum acceptable margin or target margin is 100 percent, the price
  target of that margin is \<open>total_cost / 0\<close>, which is computed without raising and is
  not a finite number (inf, -inf or NaN); and when the total cost is finite and above 0
  and the margins and the competitor target are finite, the engine returns a result
  whose recommended price is +infinity.
\<close>

theorem margin_100_not_rejected:
  assumes "val (min_margin r) = Fin 1 \<or> val (target_margin r) = Fin 1"
  shows "(val (min_margin r) = Fin 1 \<longrightarrow>
            (\<exists>m. min_price_allowed r = Inr m \<and> \<not> is_fin (val m)))
     \<and> (val (target_margin r) = Fin 1 \<longrightarrow>
            (\<exists>t. target_price r = Inr t \<and> \<not> is_fin (val t)))
     \<and> (is_fin (val (total_cost r)) \<and> flt_less (Fin 0) (val (total_cost r))
          \<and> is_fin (val (min_margin r)) \<and> is_fin (val (target_margin r))
          \<and> is_fin (val (competitor_target r))
         \<longrightarrow> (\<exists>res. engine r = Inr res \<and> val (res_recommended_price res) = PInf))"
proof (intro conjI impI)
  assume "val (min_margin r) = Fin 1"
  then have "\<not> is_fin (floor_val r)"
    by (cases "val (total_cost r)") (simp_all add: floor_val_def flt_sub_def inf_of_sgn_def)
  then show "\<exists>m. min_price_allowed r = Inr m \<and> \<not> is_fin (val m)"
    using val_min_price_allowed [of r] by auto
next
  assume "val (target_margin r) = Fin 1"
  then have "\<not> is_fin (target_val r)"
    by (cases "val (total_cost r)") (simp_all add: target_val_def flt_sub_def inf_of_sgn_def)
  then show "\<exists>t. target_price r = Inr t \<and> \<not> is_fin (val t)"
    using val_target_price [of r] by auto
next
  assume h: "is_fin (val (total_cost r)) \<and> flt_less (Fin 0) (val (total_cost r))
    \<and> is_fin (val (min_margin r)) \<and> is_fin (val (target_margin r))
    \<and> is_fin (val (competitor_target r))"
  then obtain t a b c where v: "val (total_cost r) = Fin t" "val (min_margin r) = Fin a"
    "val (target_margin r) = Fin b" "val (competitor_target r) = Fin c"
    by (metis is_fin.elims(2))
  with h have t: "0 < t"
    by simp
  obtain p rs where p: "recommended_price r = Inr p" and rs: "rs = 5 / 100 \<or> rs = 0"
    and vp: "val p = flt_max (blend_val (flt_max (target_val r) (floor_val r))
                               (signal_factor r rs) (val (competitor_target r)))
                             (floor_val r)"
    using val_recommended_price [of r] by blast
  have k: "0 < signal_factor r rs"
    using rs by (rule signal_factor_pos)
  have fl: "floor_val r = (if a = 1 then PInf else Fin (t / (1 - a)))"
    using t by (simp add: floor_val_def flt_sub_def inf_of_sgn_def v)
  have tg: "target_val r = (if b = 1 then PInf else Fin (t / (1 - b)))"
    using t by (simp add: target_val_def flt_sub_def inf_of_sgn_def v)
  have "flt_max (target_val r) (floor_val r) = PInf"
    using assms by (auto simp add: fl tg v flt_max_def)
  then have "val p = PInf"
    using k by (simp add: vp v blend_val_def inf_of_sgn_def fl flt_max_def)
  then have "recommended_margin r = Inr (quot (py_sub p (total_cost r)) p)"
    by (simp add: recommended_margin_def p py_truediv_Inr)
  moreover obtain cm where "current_margin r = Inr cm"
    using current_margin_returns by blast
  ultimately have "\<exists>res. engine r = Inr res \<and> res_recommended_price res = p"
    using p
    by (simp add: engine_def return_risk_load_Inr min_price_allowed_Inr target_price_Inr
        risk_level_def reason_def risk_signal_Inr)
  with \<open>val p = PInf\<close> show "\<exists>res. engine r = Inr res \<and> val (res_recommended_price res) = PInf"
    by auto
qed

theorem margin_100_not_rejected_witness:
  "val (target_margin target_margin_100) = Fin 1
   \<and> target_price target_margin_100 = Inr (Np PInf)
   \<and> is_fin (val (total_cost target_margin_100))
   \<and> flt_less (Fin 0) (val (total_cost target_margin_100))
   \<and> is_fin (val (min_margin target_margin_100))
   \<and> is_fin (val (target_margin target_margin_100))
   \<and> is_fin (val (competitor_target target_margin_100))
   \<and> val (min_margin min_margin_100) = Fin 1
   \<and> min_price_allowed min_margin_100 = Inr (Np PInf)
   \<and> recommended_price min_margin_100 = Inr (Np PInf)"
proof -
  have h1: "val (min_margin target_margin_100) = Fin 1 \<or> val (target_margin target_margin_100) = Fin 1"
    by (simp add: target_margin_100_cells)
  have h2: "val (min_margin min_margin_100) = Fin 1 \<or> val (target_margin min_margin_100) = Fin 1"
    by (simp add: min_margin_100_cells)
  have e: "recommended_price min_margin_100 = Inr (Np PInf)"
    "min_price_allowed min_margin_100 = Inr (Np PInf)"
    "target_price target_margin_100 = Inr (Np PInf)"
    using engine_fields [OF min_margin_100_engine] engine_fields [OF target_margin_100_engine]
    by simp_all
  from margin_100_not_rejected [OF h1] margin_100_not_rejected [OF h2] show ?thesis
    by (simp add: e target_margin_100_cells min_margin_100_cells competitor_target_def isna_def)
qed

text \<open>
  C3 as stated, the recommended price is above 0 whenever the total cost is at least 0
  and both margins are below 100 percent, fails twice. The item that costs nothing and
  is priced at 0 meets the conditions, its recommended price is 0, and line 128 computes
  \<open>0 / 0\<close>. The item with a cost of 10 and an empty cell for the current price meets
  them too, and its recommended price is NaN, which is not above 0.
\<close>

theorem recommended_price_positive_counterexample:
  "flt_le (Fin 0) (val (total_cost unpriced_free_item))
   \<and> flt_less (val (min_margin unpriced_free_item)) (Fin 1)
   \<and> flt_less (val (target_margin unpriced_free_item)) (Fin 1)
   \<and> recommended_price unpriced_free_item = Inr (Np (Fin 0))
   \<and> \<not> flt_less (Fin 0) (Fin 0)
   \<and> recommended_margin unpriced_free_item = Inr (Np NaN)
   \<and> flt_le (Fin 0) (val (total_cost empty_price_cell))
   \<and> flt_less (val (min_margin empty_price_cell)) (Fin 1)
   \<and> flt_less (val (target_margin empty_price_cell)) (Fin 1)
   \<and> recommended_price empty_price_cell = Inr (Np NaN)
   \<and> \<not> flt_less (Fin 0) NaN"
  by (simp add: free_cells free_recommended_price free_recommended_margin empty_price_cells
      empty_price_recommended_price flt_le_def)

text \<open>
  C3, amended. For every input row whose total cost is a finite number of at least 0,
  whose margins are finite and below 100 percent, whose competitor target is not NaN,
  and in which the total cost or the competitor target is above 0, the recommended price
  of steps 7 and 8 is above 0, and the recommended margin is
  \<open>(recommended_price - total_cost) / recommended_price\<close>, a division by a price that
  is not zero.
\<close>

theorem recommended_price_positive:
  assumes "val (total_cost r) = Fin t" and "0 \<le> t"
    and "val (min_margin r) = Fin a" and "a < 1"
    and "val (target_margin r) = Fin b" and "b < 1"
    and "val (competitor_target r) \<noteq> NaN"
    and "0 < t \<or> flt_less (Fin 0) (val (competitor_target r))"
  shows "\<exists>p. recommended_price r = Inr p \<and> flt_less (Fin 0) (val p)
           \<and> recommended_margin r = Inr (quot (py_sub p (total_cost r)) p)"
proof -
  obtain p rs where p: "recommended_price r = Inr p" and rs: "rs = 5 / 100 \<or> rs = 0"
    and vp: "val p = flt_max (blend_val (flt_max (target_val r) (floor_val r))
                               (signal_factor r rs) (val (competitor_target r)))
                             (floor_val r)"
    using val_recommended_price [of r] by blast
  have k: "0 < signal_factor r rs"
    using rs by (rule signal_factor_pos)
  have fl: "floor_val r = Fin (t / (1 - a))"
    using assms by (intro floor_val_Fin) auto
  have tg: "target_val r = Fin (t / (1 - b))"
    using assms by (intro target_val_Fin) auto
  have m0: "0 \<le> t / (1 - a)" and t0: "0 \<le> t / (1 - b)"
    using assms by simp_all
  let ?b = "max (t / (1 - b)) (t / (1 - a))"
  have b0: "0 \<le> ?b * signal_factor r rs"
    using m0 k by (simp add: max.coboundedI2)
  have pos: "flt_less (Fin 0) (val p)"
  proof (cases "val (competitor_target r)")
    case NaN
    with assms show ?thesis by simp
  next
    case NInf
    with assms have "0 < t" by simp
    then have "0 < t / (1 - a)" using assms by simp
    then show ?thesis
      by (simp add: vp fl tg NInf flt_max_Fin blend_val_def inf_of_sgn_def flt_max_def)
  next
    case PInf
    then show ?thesis
      by (simp add: vp fl tg flt_max_Fin blend_val_def inf_of_sgn_def flt_max_def)
  next
    case (Fin c)
    have "0 < max (6 / 10 * (?b * signal_factor r rs) + 4 / 10 * c) (t / (1 - a))"
    proof (cases "0 < t")
      case True
      then have "0 < t / (1 - a)" using assms by simp
      then show ?thesis by (simp add: max.strict_coboundedI2)
    next
      case False
      with assms Fin have "0 < c" by simp
      with b0 have "0 < 6 / 10 * (?b * signal_factor r rs) + 4 / 10 * c"
        by (simp add: add_nonneg_pos)
      then show ?thesis by (simp add: max.strict_coboundedI1)
    qed
    then show ?thesis
      by (simp add: vp fl tg Fin flt_max_Fin blend_val_Fin)
  qed
  then have "val p \<noteq> Fin 0"
    by auto
  then have "recommended_margin r = Inr (quot (py_sub p (total_cost r)) p)"
    by (simp add: recommended_margin_def p py_truediv_Inr)
  with p pos show ?thesis
    by blast
qed

theorem recommended_price_positive_witness:
  "val (total_cost scenario) = Fin 15 \<and> (0 :: rat) \<le> 15
   \<and> val (min_margin scenario) = Fin (1 / 10) \<and> (1 / 10 :: rat) < 1
   \<and> val (target_margin scenario) = Fin (1 / 4) \<and> (1 / 4 :: rat) < 1
   \<and> val (competitor_target scenario) \<noteq> NaN
   \<and> recommended_price scenario = Inr (Np (Fin (2155 / 100)))
   \<and> flt_less (Fin 0) (Fin (2155 / 100))
   \<and> recommended_margin scenario = Inr (Np (Fin (131 / 431)))
   \<and> val (total_cost priced_free_item) = Fin 0
   \<and> flt_less (Fin 0) (val (competitor_target priced_free_item))
   \<and> recommended_price priced_free_item = Inr (Np (Fin 4))
   \<and> recommended_margin priced_free_item = Inr (Np (Fin 1))"
proof -
  have c: "competitor_target priced_free_item = Np (Fin 10)"
    by (simp add: competitor_target_def priced_cells isna_def)
  have s: "val (total_cost scenario) = Fin 15" "(0 :: rat) \<le> 15"
    "val (min_margin scenario) = Fin (1 / 10)" "(1 / 10 :: rat) < 1"
    "val (target_margin scenario) = Fin (1 / 4)" "(1 / 4 :: rat) < 1"
    "val (competitor_target scenario) \<noteq> NaN"
    "0 < (15 :: rat) \<or> flt_less (Fin 0) (val (competitor_target scenario))"
    by (simp_all add: sc_cells sc_competitor_target)
  have f: "val (total_cost priced_free_item) = Fin 0" "(0 :: rat) \<le> 0"
    "val (min_margin priced_free_item) = Fin (1 / 10)" "(1 / 10 :: rat) < 1"
    "val (target_margin priced_free_item) = Fin (1 / 4)" "(1 / 4 :: rat) < 1"
    "val (competitor_target priced_free_item) \<noteq> NaN"
    "0 < (0 :: rat) \<or> flt_less (Fin 0) (val (competitor_target priced_free_item))"
    by (simp_all add: priced_cells c)
  from recommended_price_positive [OF s] recommended_price_positive [OF f] show ?thesis
    using s f
    by (simp add: sc_recommended_price sc_recommended_margin priced_recommended_price
        priced_recommended_margin)
qed

text \<open>
  C4, current margin zero-guard. For every row whose current price is 0 the current
  margin is the number 0, no division taking place; for every row whose current price
  is above 0 it is \<open>(current_price - total_cost) / current_price\<close>, which for a finite
  price \<open>c\<close> and a finite total cost \<open>t\<close> is the number \<open>(c - t) / c\<close>. Nothing is
  raised in either case.
\<close>

theorem current_margin_zero_guard:
  "(val (current_price r) = Fin 0 \<longrightarrow> current_margin r = Inr (lit 0))
   \<and> (flt_less (Fin 0) (val (current_price r)) \<longrightarrow>
        current_margin r = Inr (quot (py_sub (current_price r) (total_cost r)) (current_price r)))
   \<and> (\<forall>c t. val (current_price r) = Fin c \<and> 0 < c \<and> val (total_cost r) = Fin t \<longrightarrow>
        (\<exists>m. current_margin r = Inr m \<and> val m = Fin ((c - t) / c)))"
proof (intro conjI impI allI)
  assume "val (current_price r) = Fin 0"
  then show "current_margin r = Inr (lit 0)"
    by (simp add: current_margin_def py_bool_def)
next
  assume "flt_less (Fin 0) (val (current_price r))"
  then have "val (current_price r) \<noteq> Fin 0"
    by auto
  then show "current_margin r
      = Inr (quot (py_sub (current_price r) (total_cost r)) (current_price r))"
    by (simp add: current_margin_def py_bool_def py_truediv_Inr)
next
  fix c t
  assume "val (current_price r) = Fin c \<and> 0 < c \<and> val (total_cost r) = Fin t"
  then show "\<exists>m. current_margin r = Inr m \<and> val m = Fin ((c - t) / c)"
    by (simp add: current_margin_def py_bool_def py_truediv_Inr quot_def py_sub_def
        flt_sub_def)
qed

theorem current_margin_zero_guard_witness:
  "val (current_price unpriced_free_item) = Fin 0
   \<and> current_margin unpriced_free_item = Inr (lit 0)
   \<and> flt_less (Fin 0) (val (current_price scenario))
   \<and> val (current_price scenario) = Fin 18 \<and> (0 :: rat) < 18
   \<and> val (total_cost scenario) = Fin 15
   \<and> current_margin scenario = Inr (Np (Fin (1 / 6)))"
  using current_margin_zero_guard [of unpriced_free_item] current_margin_zero_guard [of scenario]
  by (simp add: free_cells sc_cells sc_current_margin)

text \<open>
  C5, concrete scenario. On the row with cost 10, FBA fee 3, storage fee 1, handling cost
  1, the default margins, 15 days of supply, ACOS 50, 100 units shipped, 5 returns,
  average competitor price 22 and current price 18, the engine computes total cost 15,
  minimum allowed price 50/3 (16.6667 to four decimals), target price 20, inventory signal
  0.05, ads signal 0.05, risk signal 0, competitor target 20.8, recommended price 21.55,
  risk level HIGH and the rationale of the low-inventory, high-ACOS and competitor
  messages, in this order.
\<close>

theorem concrete_scenario:
  "total_cost scenario = Np (Fin 15)
   \<and> min_price_allowed scenario = Inr (Np (Fin (50 / 3)))
   \<and> \<bar>50 / 3 - 166667 / 10000\<bar> < (1 / 20000 :: rat)
   \<and> target_price scenario = Inr (Np (Fin 20))
   \<and> inventory_signal scenario = 5 / 100
   \<and> ads_signal scenario = 5 / 100
   \<and> risk_signal scenario = Inr 0
   \<and> competitor_target scenario = Np (Fin (208 / 10))
   \<and> recommended_price scenario = Inr (Np (Fin (2155 / 100)))
   \<and> risk_level scenario = Inr ''HIGH''
   \<and> reason scenario = Inr
        [''Low inventory '' @ arrow @ '' price increased slightly'',
         ''High ACOS '' @ arrow @ '' price increased to protect margin'',
         ''Price aligned with competitor market'']
   \<and> engine scenario = Inr \<lparr> res_total_cost = Np (Fin 15),
       res_min_price_allowed = Np (Fin (50 / 3)), res_target_price = Np (Fin 20),
       res_recommended_price = Np (Fin (2155 / 100)), res_current_margin = Np (Fin (1 / 6)),
       res_recommended_margin = Np (Fin (131 / 431)), res_risk_level = ''HIGH'',
       res_rationale = [msg_low_inventory, msg_high_acos, msg_competitor] \<rparr>"
proof -
  have "\<bar>50 / 3 - 166667 / 10000\<bar> < (1 / 20000 :: rat)"
    by simp
  moreover have "reason scenario = Inr
        [''Low inventory '' @ arrow @ '' price increased slightly'',
         ''High ACOS '' @ arrow @ '' price increased to protect margin'',
         ''Price aligned with competitor market'']"
    unfolding sc_reason msg_low_inventory_def msg_high_acos_def msg_competitor_def ..
  ultimately show ?thesis
    using sc_cells(1) sc_min_price sc_target_price sc_inventory_signal sc_ads_signal
      sc_risk_signal sc_competitor_target sc_recommended_price sc_risk_level sc_engine
    by blast
qed

text \<open>
  C6, risk classification. For every row, the risk level is HIGH if the return-risk load
  exceeds 0.2 times the total cost or the ACOS is present and above 40; otherwise MEDIUM
  if the days of supply are present and below 20; otherwise LOW. A cell that is missing
  or NaN is not present, and a comparison with NaN is false.
\<close>

theorem risk_level_classification:
  "\<exists>l. return_risk_load r = Inr l
     \<and> val l = flt_mul (flt_div (val (returns90 r)) (flt_add (val (units90 r)) (Fin 1)))
                       (val (total_cost r))
     \<and> risk_level r = Inr
       (if flt_less (flt_mul (Fin (2 / 10)) (val (total_cost r))) (val l)
           \<or> (\<exists>a. r ''acosClicks14d'' = Some a \<and> flt_less (Fin 40) a)
        then ''HIGH''
        else if (\<exists>d. r ''days_of_supply'' = Some d \<and> flt_less d (Fin 20)) then ''MEDIUM''
        else ''LOW'')"
proof -
  have a: "(\<not> isna (ads_acos r) \<and> py_gt (ads_acos r) (lit 40))
      \<longleftrightarrow> (\<exists>a. r ''acosClicks14d'' = Some a \<and> flt_less (Fin 40) a)"
    by (cases "r ''acosClicks14d''")
      (auto simp add: ads_acos_def row_get_def isna_def py_gt_def)
  have d: "(\<not> isna (days_supply r) \<and> py_lt (days_supply r) (lit 20))
      \<longleftrightarrow> (\<exists>d. r ''days_of_supply'' = Some d \<and> flt_less d (Fin 20))"
    by (cases "r ''days_of_supply''")
      (auto simp add: days_supply_def row_get_def isna_def py_lt_def)
  show ?thesis
    unfolding risk_level_def return_risk_load_Inr bind_err_Inr a d
    by (simp add: py_gt_def py_mul_def py_add_def quot_def)
qed

theorem risk_level_classification_witness:
  "risk_level scenario = Inr ''HIGH''
   \<and> risk_level low_stock = Inr ''MEDIUM''
   \<and> risk_level cost_only = Inr ''LOW''"
proof -
  have a: "scenario ''acosClicks14d'' = Some (Fin 50)" "low_stock ''acosClicks14d'' = None"
    "cost_only ''acosClicks14d'' = None" "low_stock ''days_of_supply'' = Some (Fin 15)"
    "cost_only ''days_of_supply'' = None"
    by (simp_all add: scenario_def low_stock_def cost_only_def)
  from risk_level_classification [of scenario] risk_level_classification [of low_stock]
    risk_level_classification [of cost_only]
  show ?thesis
    using a by (auto simp add: sc_cells low_stock_cells cost_only_cells)
qed

text \<open>
  C7, rationale. For every row, the rationale is the list of the messages whose
  conditions hold (inventory signal above 0, else below 0; ads signal above 0, else below
  0; risk signal above 0; average competitor price present, that is a cell that is not
  NaN), in the order inventory, ads, risk, competitor; when no condition holds it is the
  one fallback message; its length is at least 1.
\<close>

theorem reason_is_rationale_spec:
  "\<exists>rs xs. risk_signal r = Inr rs \<and> reason r = Inr xs
     \<and> xs = rationale_spec (inventory_signal r) (ads_signal r) rs
              (\<exists>a. r ''Avg_Competitor_Price'' = Some a \<and> a \<noteq> NaN)
     \<and> 1 \<le> length xs"
proof -
  obtain rs where rs: "risk_signal r = Inr rs"
    using risk_signal_cases [of r] by blast
  have c: "\<not> isna (competitor_avg r)
      \<longleftrightarrow> (\<exists>a. r ''Avg_Competitor_Price'' = Some a \<and> a \<noteq> NaN)"
    by (cases "r ''Avg_Competitor_Price''")
      (auto simp add: competitor_avg_def row_get_def isna_def)
  show ?thesis
    unfolding reason_def rs bind_err_Inr c
    by (auto simp add: rationale_spec_def fired_def Let_def)
qed

theorem reason_is_rationale_spec_witness:
  "reason scenario = Inr [msg_low_inventory, msg_high_acos, msg_competitor]
   \<and> reason cost_only = Inr [msg_fallback]"
proof -
  have a: "scenario ''Avg_Competitor_Price'' = Some (Fin 22)"
    "cost_only ''Avg_Competitor_Price'' = None"
    by (simp_all add: scenario_def cost_only_def)
  have s: "inventory_signal cost_only = 0" "ads_signal cost_only = 0"
    "risk_signal cost_only = Inr 0"
    by (simp_all add: inventory_signal_def ads_signal_def risk_signal_Inr cost_only_cells
        cell_defs)
  from reason_is_rationale_spec [of scenario] reason_is_rationale_spec [of cost_only]
  show ?thesis
    using a
    by (simp add: sc_risk_signal sc_inventory_signal sc_ads_signal s rationale_spec_def
        fired_def)
qed

text \<open>
  C8 as stated, zero costs give a total cost, a minimum allowed price and a target price
  of 0 for every such row, fails. With the four costs at 0 and a minimum margin of 100
  percent the minimum allowed price is \<open>0 / 0\<close>, NaN; with an empty cell for that margin
  it is NaN as well; and a cost that is absent as an empty cell, not a missing column,
  makes the total cost NaN.
\<close>

theorem zero_cost_edge_counterexample:
  "val (total_cost zero_cost_margin_100) = Fin 0
   \<and> min_price_allowed zero_cost_margin_100 = Inr (Np NaN)
   \<and> val (total_cost zero_cost_empty_margin) = Fin 0
   \<and> min_price_allowed zero_cost_empty_margin = Inr (Np NaN)
   \<and> empty_cost_cell ''Cost'' = Some NaN
   \<and> total_cost empty_cost_cell = Np NaN"
  by (simp add: zero_cost_margin_100_def zero_cost_empty_margin_def empty_cost_cell_def
      min_price_allowed_def var_defs cell_defs)

text \<open>
  C8, amended. For every row in which cost, FBA fee, storage fee and handling cost are
  each the number 0 or a missing column, and whose two margins are neither NaN nor 100
  percent, the total cost is 0, the minimum allowed price is 0 and the target price is 0.
\<close>

theorem zero_cost_edge:
  assumes "val (row_get r ''Cost'' (lit 0)) = Fin 0"
    and "val (row_get r ''FBA_Fee'' (lit 0)) = Fin 0"
    and "val (row_get r ''Storage_Fee'' (lit 0)) = Fin 0"
    and "val (row_get r ''Handling_Cost'' (lit 0)) = Fin 0"
    and "val (min_margin r) \<noteq> NaN" and "val (min_margin r) \<noteq> Fin 1"
    and "val (target_margin r) \<noteq> NaN" and "val (target_margin r) \<noteq> Fin 1"
  shows "val (total_cost r) = Fin 0
     \<and> (\<exists>m. min_price_allowed r = Inr m \<and> val m = Fin 0)
     \<and> (\<exists>t. target_price r = Inr t \<and> val t = Fin 0)"
proof -
  have tc: "val (total_cost r) = Fin 0"
    using assms by (simp add: total_cost_def py_add_def)
  have "floor_val r = Fin 0"
    using assms(5,6) by (cases "val (min_margin r)") (simp_all add: floor_val_def tc flt_sub_def)
  moreover have "target_val r = Fin 0"
    using assms(7,8)
    by (cases "val (target_margin r)") (simp_all add: target_val_def tc flt_sub_def)
  ultimately show ?thesis
    using tc val_min_price_allowed [of r] val_target_price [of r] by auto
qed

theorem zero_cost_edge_witness:
  "val (row_get unpriced_free_item ''Cost'' (lit 0)) = Fin 0
   \<and> val (row_get unpriced_free_item ''FBA_Fee'' (lit 0)) = Fin 0
   \<and> val (row_get unpriced_free_item ''Storage_Fee'' (lit 0)) = Fin 0
   \<and> val (row_get unpriced_free_item ''Handling_Cost'' (lit 0)) = Fin 0
   \<and> val (min_margin unpriced_free_item) = Fin (1 / 10)
   \<and> val (target_margin unpriced_free_item) = Fin (1 / 4)
   \<and> total_cost unpriced_free_item = Np (Fin 0)
   \<and> min_price_allowed unpriced_free_item = Inr (Np (Fin 0))
   \<and> target_price unpriced_free_item = Inr (Np (Fin 0))"
proof -
  have h: "val (row_get unpriced_free_item ''Cost'' (lit 0)) = Fin 0"
    "val (row_get unpriced_free_item ''FBA_Fee'' (lit 0)) = Fin 0"
    "val (row_get unpriced_free_item ''Storage_Fee'' (lit 0)) = Fin 0"
    "val (row_get unpriced_free_item ''Handling_Cost'' (lit 0)) = Fin 0"
    by (simp_all add: unpriced_free_item_def row_get_def)
  have m: "val (min_margin unpriced_free_item) \<noteq> NaN"
    "val (min_margin unpriced_free_item) \<noteq> Fin 1"
    "val (target_margin unpriced_free_item) \<noteq> NaN"
    "val (target_margin unpriced_free_item) \<noteq> Fin 1"
    by (simp_all add: free_cells)
  from zero_cost_edge [OF h m] show ?thesis
    using h by (simp add: free_cells free_min_price free_target_price)
qed

text \<open>
  C9, signal-to-risk coupling. For every row, whenever the risk signal is 0.05 or the ads
  signal is 0.05, the risk level is HIGH.
\<close>

theorem signal_risk_coupling:
  assumes "risk_signal r = Inr (5 / 100) \<or> ads_signal r = 5 / 100"
  shows "risk_level r = Inr ''HIGH''"
  using assms
  by (auto simp add: risk_level_def risk_signal_def return_risk_load_Inr ads_signal_def
      split: if_splits)

theorem signal_risk_coupling_witness:
  "ads_signal scenario = 5 / 100 \<and> risk_level scenario = Inr ''HIGH''
   \<and> risk_signal many_returns = Inr (5 / 100) \<and> risk_level many_returns = Inr ''HIGH''"
proof -
  have m: "risk_signal many_returns = Inr (5 / 100)"
    by (simp add: risk_signal_Inr many_returns_cells cell_defs)
  have s: "risk_signal scenario = Inr (5 / 100) \<or> ads_signal scenario = 5 / 100"
    "risk_signal many_returns = Inr (5 / 100) \<or> ads_signal many_returns = 5 / 100"
    by (simp_all add: sc_ads_signal m)
  from signal_risk_coupling [OF s(1)] signal_risk_coupling [OF s(2)] show ?thesis
    by (simp add: sc_ads_signal m)
qed

subsection \<open>Changing the average competitor price only\<close>

lemma upd_total_cost: "total_cost (r(''Avg_Competitor_Price'' \<mapsto> x)) = total_cost r"
  by (simp add: total_cost_def row_get_def)

lemma upd_min_margin: "min_margin (r(''Avg_Competitor_Price'' \<mapsto> x)) = min_margin r"
  by (simp add: min_margin_def row_get_def)

lemma upd_target_margin: "target_margin (r(''Avg_Competitor_Price'' \<mapsto> x)) = target_margin r"
  by (simp add: target_margin_def row_get_def)

lemma upd_current_price: "current_price (r(''Avg_Competitor_Price'' \<mapsto> x)) = current_price r"
  by (simp add: current_price_def row_get_def)

lemma upd_units90: "units90 (r(''Avg_Competitor_Price'' \<mapsto> x)) = units90 r"
  by (simp add: units90_def row_get_def)

lemma upd_returns90: "returns90 (r(''Avg_Competitor_Price'' \<mapsto> x)) = returns90 r"
  by (simp add: returns90_def row_get_def)

lemma upd_days_supply: "days_supply (r(''Avg_Competitor_Price'' \<mapsto> x)) = days_supply r"
  by (simp add: days_supply_def row_get_def)

lemma upd_ads_acos: "ads_acos (r(''Avg_Competitor_Price'' \<mapsto> x)) = ads_acos r"
  by (simp add: ads_acos_def row_get_def)

lemmas upd_cells = upd_total_cost upd_min_margin upd_target_margin upd_current_price
  upd_units90 upd_returns90 upd_days_supply upd_ads_acos

lemma upd_competitor_target:
  "val (competitor_target (r(''Avg_Competitor_Price'' \<mapsto> Fin a)))
     = flt_add (Fin (7 / 10 * a)) (flt_mul (Fin (3 / 10)) (val (current_price r)))"
  by (simp add: competitor_target_def competitor_avg_def row_get_def isna_def py_add_def
      py_mul_def upd_current_price)

lemma upd_risk_signal: "risk_signal (r(''Avg_Competitor_Price'' \<mapsto> x)) = risk_signal r"
  by (simp add: risk_signal_def return_risk_load_def upd_cells)

lemma upd_floor_val: "floor_val (r(''Avg_Competitor_Price'' \<mapsto> x)) = floor_val r"
  by (simp add: floor_val_def upd_cells)

lemma upd_target_val: "target_val (r(''Avg_Competitor_Price'' \<mapsto> x)) = target_val r"
  by (simp add: target_val_def upd_cells)

lemma upd_signal_factor:
  "signal_factor (r(''Avg_Competitor_Price'' \<mapsto> x)) rs = signal_factor r rs"
  by (simp add: signal_factor_def inventory_signal_def ads_signal_def upd_cells)

text \<open>The blend and the price as functions of the average competitor price \<open>a\<close>, the
  other values fixed: \<open>b\<close> the base, \<open>k\<close> the factor of the signals, \<open>c\<close> the current
  price, \<open>m\<close> the floor.\<close>

lemma blend_monotone:
  fixes b c :: flt
  assumes "a \<le> a'" and "0 < k"
  defines "g \<equiv> \<lambda>x. blend_val b k (flt_add (Fin (7 / 10 * x)) (flt_mul (Fin (3 / 10)) c))"
  shows "(g a = NaN \<and> g a' = NaN) \<or> (g a = PInf \<and> g a' = PInf)
     \<or> (g a = NInf \<and> g a' = NInf) \<or> (\<exists>u v. g a = Fin u \<and> g a' = Fin v \<and> u \<le> v)"
  using assms(1,2) unfolding g_def
  by (cases b; cases c) (simp_all add: blend_val_def inf_of_sgn_def)

lemma flt_max_monotone:
  assumes "(x = NaN \<and> y = NaN) \<or> (x = PInf \<and> y = PInf)
     \<or> (x = NInf \<and> y = NInf) \<or> (\<exists>u v. x = Fin u \<and> y = Fin v \<and> u \<le> v)"
  shows "(flt_max x m \<noteq> NaN \<longrightarrow> flt_le (flt_max x m) (flt_max y m))
     \<and> (flt_max x m = NaN \<longrightarrow> flt_max y m = NaN)
     \<and> (\<forall>u. flt_max x m = Fin u \<longrightarrow> (\<exists>v. flt_max y m = Fin v \<and> u \<le> v))"
  using assms
  by (cases m) (auto simp add: flt_max_def flt_le_def)

lemma sc_competitor_20:
  "recommended_price (scenario(''Avg_Competitor_Price'' \<mapsto> Fin 20)) = Inr (Np (Fin (2099 / 100)))"
  by (simp add: scenario_def step_defs var_defs cell_defs Let_def)

lemma sc_competitor_22:
  "recommended_price (scenario(''Avg_Competitor_Price'' \<mapsto> Fin 22)) = Inr (Np (Fin (2155 / 100)))"
  by (simp add: scenario_def step_defs var_defs cell_defs Let_def)

lemma empty_price_competitor:
  "recommended_price (empty_price_cell(''Avg_Competitor_Price'' \<mapsto> Fin 20)) = Inr (Np NaN)"
  "recommended_price (empty_price_cell(''Avg_Competitor_Price'' \<mapsto> Fin 22)) = Inr (Np NaN)"
  by (simp_all add: empty_price_cell_def step_defs var_defs cell_defs Let_def)

text \<open>
  C10, competitor monotonicity. With every other cell of the row fixed and the average
  competitor price present, a larger average competitor price never gives a smaller
  recommended price: the engine has a recommended price at both values; where the price
  at the smaller value is a number, the price at the larger value is at least as large
  (and finite when the first is); where it is NaN, it is NaN at the larger value too.
\<close>

theorem competitor_monotone:
  assumes "a \<le> b"
    and "recommended_price (r(''Avg_Competitor_Price'' \<mapsto> Fin a)) = Inr p"
  shows "\<exists>q. recommended_price (r(''Avg_Competitor_Price'' \<mapsto> Fin b)) = Inr q
     \<and> (val p \<noteq> NaN \<longrightarrow> flt_le (val p) (val q))
     \<and> (val p = NaN \<longrightarrow> val q = NaN)
     \<and> (\<forall>x. val p = Fin x \<longrightarrow> (\<exists>y. val q = Fin y \<and> x \<le> y))"
proof -
  let ?ra = "r(''Avg_Competitor_Price'' \<mapsto> Fin a)"
  let ?rb = "r(''Avg_Competitor_Price'' \<mapsto> Fin b)"
  let ?f = "\<lambda>k x. flt_max (blend_val (flt_max (target_val r) (floor_val r)) k
              (flt_add (Fin (7 / 10 * x)) (flt_mul (Fin (3 / 10)) (val (current_price r)))))
            (floor_val r)"
  obtain p' rs where pa: "recommended_price ?ra = Inr p'" and rs: "risk_signal r = Inr rs"
    "rs = 5 / 100 \<or> rs = 0" and vp: "val p' = ?f (signal_factor r rs) a"
    using val_recommended_price [of ?ra]
    by (auto simp add: upd_risk_signal upd_floor_val upd_target_val upd_signal_factor
        upd_competitor_target)
  obtain q rs' where qb: "recommended_price ?rb = Inr q" and rs': "risk_signal r = Inr rs'"
    and vq': "val q = ?f (signal_factor r rs') b"
    using val_recommended_price [of ?rb]
    by (auto simp add: upd_risk_signal upd_floor_val upd_target_val upd_signal_factor
        upd_competitor_target)
  from rs rs' have "rs' = rs"
    by simp
  with vq' have vq: "val q = ?f (signal_factor r rs) b"
    by simp
  from pa assms(2) have "p' = p"
    by simp
  with vp have vp: "val p = ?f (signal_factor r rs) a"
    by simp
  have k: "0 < signal_factor r rs"
    using rs(2) by (rule signal_factor_pos)
  have "(val p \<noteq> NaN \<longrightarrow> flt_le (val p) (val q))
     \<and> (val p = NaN \<longrightarrow> val q = NaN)
     \<and> (\<forall>x. val p = Fin x \<longrightarrow> (\<exists>y. val q = Fin y \<and> x \<le> y))"
    unfolding vp vq
    by (rule flt_max_monotone) (rule blend_monotone [OF assms(1) k])
  with qb show ?thesis
    by blast
qed

theorem competitor_monotone_witness:
  "(20 :: rat) \<le> 22
   \<and> recommended_price (scenario(''Avg_Competitor_Price'' \<mapsto> Fin 20))
       = Inr (Np (Fin (2099 / 100)))
   \<and> recommended_price (scenario(''Avg_Competitor_Price'' \<mapsto> Fin 22))
       = Inr (Np (Fin (2155 / 100)))
   \<and> flt_le (Fin (2099 / 100)) (Fin (2155 / 100))
   \<and> recommended_price (empty_price_cell(''Avg_Competitor_Price'' \<mapsto> Fin 20)) = Inr (Np NaN)
   \<and> recommended_price (empty_price_cell(''Avg_Competitor_Price'' \<mapsto> Fin 22)) = Inr (Np NaN)"
proof -
  have h: "(20 :: rat) \<le> 22"
    by simp
  from competitor_monotone [OF h sc_competitor_20]
    competitor_monotone [OF h empty_price_competitor(1)]
  show ?thesis
    by (simp add: sc_competitor_20 sc_competitor_22 empty_price_competitor flt_le_def)
qed

end
